theory Spec2Isabelle
  imports Complex_Main "HOL-Library.AList"
begin

text \<open>
  A shallow embedding of the router monitor: the response parser and the protocol gateway
  (\<^verbatim>\<open>snmp/parsers.py\<close>, \<^verbatim>\<open>snmp/client.py\<close>), the poll orchestrator and the
  device-list reader (\<^verbatim>\<open>main.py\<close>), the persistence engine (\<^verbatim>\<open>db/connection.py\<close>,
  \<^verbatim>\<open>db/interface_dao.py\<close>), the partition maintainer (\<^verbatim>\<open>db/schema.py\<close>) and the
  utilization calculator. Every raise of the source is a value of the type \<open>error\<close>; a function
  that can raise returns \<open>error + 'a\<close> with \<open>Inl\<close> for the exception. Only subclasses of
  \<^verbatim>\<open>Exception\<close> are modelled (task cancellation and interpreter exit are not). The devices and the
  store are outside the program: their answers are parameters of the model.
\<close>

section \<open>Python built-ins used by the source\<close>

text \<open>
  \<open>DbError\<close> is \<^verbatim>\<open>mysql.connector.Error\<close> (with its subclasses); the others are the
  built-in exceptions of the same name.
\<close>

datatype error =
  ValueError | TypeError | OverflowError | AttributeError | RuntimeError
  | KeyError | OSError | FileNotFoundError | UnicodeDecodeError | DbError

text \<open>
  Strings are lists of characters, a character being a code point below 256.
  \<^verbatim>\<open>str.isspace\<close>, \<^verbatim>\<open>str.strip\<close> and the pattern \<^verbatim>\<open>\s\<close> agree on the whitespace of
  that range: code points 9 to 13, 28 to 32, 133 and 160. The pattern \<^verbatim>\<open>\d\<close> matches the ten
  ASCII digits there.
\<close>

definition isspace :: "char \<Rightarrow> bool" where
  "isspace c = ((of_char c :: nat) \<in> {9, 10, 11, 12, 13, 28, 29, 30, 31, 32, 133, 160})"

definition isdigit :: "char \<Rightarrow> bool" where
  "isdigit c = (c \<in> set ''0123456789'')"

definition ishex :: "char \<Rightarrow> bool" where
  "ishex c = (c \<in> set ''0123456789ABCDEFabcdef'')"

definition digit_val :: "char \<Rightarrow> nat" where
  "digit_val c = of_char c - 48"

definition strip :: "string \<Rightarrow> string" where
  "strip s = rev (dropWhile isspace (rev (dropWhile isspace s)))"

text \<open>
  \<^verbatim>\<open>s.split()\<close> (runs of whitespace separate, no empty pieces), \<^verbatim>\<open>s.split(sep)\<close>,
  \<^verbatim>\<open>s.split(sep, 1)\<close>, \<^verbatim>\<open>sep.join(xs)\<close>, \<^verbatim>\<open>s.startswith(p)\<close>,
  \<^verbatim>\<open>s.endswith(p)\<close> and \<^verbatim>\<open>sub in s\<close>.
\<close>

fun split_ws :: "string \<Rightarrow> string \<Rightarrow> string list" where
  "split_ws cur [] = (if cur = [] then [] else [cur])"
| "split_ws cur (c # cs) =
     (if isspace c then (if cur = [] then split_ws [] cs else cur # split_ws [] cs)
      else split_ws (cur @ [c]) cs)"

fun split_on :: "char \<Rightarrow> string \<Rightarrow> string list" where
  "split_on sep [] = [[]]"
| "split_on sep (c # cs) =
     (if c = sep then [] # split_on sep cs
      else (case split_on sep cs of [] \<Rightarrow> [[c]] | p # ps \<Rightarrow> (c # p) # ps))"

definition split1 :: "char \<Rightarrow> string \<Rightarrow> string list" where
  "split1 sep s =
     (if sep \<in> set s then [takeWhile (\<lambda>c. c \<noteq> sep) s, tl (dropWhile (\<lambda>c. c \<noteq> sep) s)]
      else [s])"

fun join :: "string \<Rightarrow> string list \<Rightarrow> string" where
  "join sep [] = []"
| "join sep [x] = x"
| "join sep (x # y # ys) = x @ sep @ join sep (y # ys)"

definition startswith :: "string \<Rightarrow> string \<Rightarrow> bool" where
  "startswith s p = (take (length p) s = p)"

definition endswith :: "string \<Rightarrow> string \<Rightarrow> bool" where
  "endswith s p = (take (length p) (rev s) = rev p)"

fun contains :: "string \<Rightarrow> string \<Rightarrow> bool" where
  "contains sub [] = (sub = [])"
| "contains sub (c # cs) = (startswith (c # cs) sub \<or> contains sub cs)"

text \<open>
  \<^verbatim>\<open>int(s)\<close> for a string: whitespace is dropped at both ends, one sign is allowed, then
  decimal digits, where single underscores may stand between digits; anything else is a
  \<^verbatim>\<open>ValueError\<close>. The whitespace of \<^verbatim>\<open>int\<close> is not that of \<^verbatim>\<open>str.strip\<close>: code points
  28 to 31 are not dropped. CPython refuses, with \<^verbatim>\<open>ValueError\<close> as well, a string of more than
  \<^verbatim>\<open>sys.int_info.default_max_str_digits\<close> = 4300 digits (leading zeros are counted,
  underscores are not); the repository never changes that limit. Python integers are
  unbounded, and so is the result. \<^verbatim>\<open>str(i)\<close> is \<open>str_int\<close>.
\<close>

definition int_space :: "char \<Rightarrow> bool" where
  "int_space c = ((of_char c :: nat) \<in> {9, 10, 11, 12, 13, 32, 133, 160})"

definition int_strip :: "string \<Rightarrow> string" where
  "int_strip s = rev (dropWhile int_space (rev (dropWhile int_space s)))"

definition max_str_digits :: nat where
  "max_str_digits = 4300"

fun parse_digits :: "nat \<Rightarrow> string \<Rightarrow> nat option" where
  "parse_digits acc [] = Some acc"
| "parse_digits acc (c # cs) =
     (if isdigit c then parse_digits (acc * 10 + digit_val c) cs
      else if c = CHR ''_'' \<and> (case cs of [] \<Rightarrow> False | d # _ \<Rightarrow> isdigit d)
      then parse_digits acc cs
      else None)"

definition unsigned :: "string \<Rightarrow> nat option" where
  "unsigned u = (case u of [] \<Rightarrow> None | c # _ \<Rightarrow> if isdigit c then parse_digits 0 u else None)"

definition py_int :: "string \<Rightarrow> error + int" where
  "py_int s =
     (case int_strip s of
        [] \<Rightarrow> Inl ValueError
      | c # cs \<Rightarrow>
          (let u = (if c = CHR ''-'' \<or> c = CHR ''+'' then cs else c # cs)
           in case unsigned u of
                None \<Rightarrow> Inl ValueError
              | Some n \<Rightarrow>
                  if max_str_digits < length (filter isdigit u) then Inl ValueError
                  else Inr (if c = CHR ''-'' then - int n else int n)))"

fun digits_of :: "nat \<Rightarrow> string" where
  "digits_of n =
     (if n < 10 then [''0123456789'' ! n]
      else digits_of (n div 10) @ [''0123456789'' ! (n mod 10)])"

declare digits_of.simps [simp del]

definition str_int :: "int \<Rightarrow> string" where
  "str_int i = (if i < 0 then CHR ''-'' # digits_of (nat (- i)) else digits_of (nat i))"

text \<open>
  A parsed value is an \<^verbatim>\<open>int\<close>, a \<^verbatim>\<open>float\<close> or a \<^verbatim>\<open>str\<close>. Floating-point numbers are
  kept abstract: the type \<open>'f\<close> and what the source and its dictionaries do with them are
  parameters (\<^verbatim>\<open>float(s)\<close> with \<open>None\<close> for its \<^verbatim>\<open>ValueError\<close>, \<^verbatim>\<open>int(f)\<close>,
  \<^verbatim>\<open>bool(f)\<close>, the integer a float is equal to, if any, and \<^verbatim>\<open>str(f)\<close>). A Python value that may be
  \<^verbatim>\<open>None\<close> is an \<open>'f snmp_value option\<close>.
\<close>

record 'f float_ops =
  float_of_str :: "string \<Rightarrow> 'f option"
  int_of_float :: "'f \<Rightarrow> error + int"
  bool_of_float :: "'f \<Rightarrow> bool"
  integral_float :: "'f \<Rightarrow> int option"
  str_of_float :: "'f \<Rightarrow> string"

datatype 'f snmp_value = PyInt int | PyFloat 'f | PyStr string

type_synonym 'f pydict = "(string \<times> 'f snmp_value option) list"

definition py_int_of :: "'f float_ops \<Rightarrow> 'f snmp_value \<Rightarrow> error + int" where
  "py_int_of fo v =
     (case v of PyInt i \<Rightarrow> Inr i | PyFloat f \<Rightarrow> int_of_float fo f | PyStr s \<Rightarrow> py_int s)"

definition py_str :: "'f float_ops \<Rightarrow> 'f snmp_value \<Rightarrow> string" where
  "py_str fo v = (case v of PyInt i \<Rightarrow> str_int i | PyFloat f \<Rightarrow> str_of_float fo f | PyStr s \<Rightarrow> s)"

definition truthy :: "'f float_ops \<Rightarrow> 'f snmp_value \<Rightarrow> bool" where
  "truthy fo v =
     (case v of PyInt i \<Rightarrow> i \<noteq> 0 | PyFloat f \<Rightarrow> bool_of_float fo f | PyStr s \<Rightarrow> s \<noteq> [])"

definition dict_get :: "'f pydict \<Rightarrow> string \<Rightarrow> 'f snmp_value option" where
  "dict_get d k = (case map_of d k of None \<Rightarrow> None | Some v \<Rightarrow> v)"

section \<open>Response Parser (snmp/parsers.py)\<close>

text \<open>
  \<^verbatim>\<open>re.search\<close> tries the pattern at every position, leftmost first (\<open>re_search\<close>).
  All patterns of the source are a literal, then \<^verbatim>\<open>\s*\<close>, then a tail. \<^verbatim>\<open>\s*\<close> is
  greedy and gives whitespace back one character at a time until the tail matches
  (\<open>ws_backtrack\<close>, \<open>skip_ws\<close>). A tail returns the text of the pattern's group.
\<close>

fun re_search :: "(string \<Rightarrow> 'a option) \<Rightarrow> string \<Rightarrow> 'a option" where
  "re_search m [] = m []"
| "re_search m (c # cs) = (case m (c # cs) of Some g \<Rightarrow> Some g | None \<Rightarrow> re_search m cs)"

fun ws_backtrack :: "(string \<Rightarrow> 'a option) \<Rightarrow> string \<Rightarrow> nat \<Rightarrow> 'a option" where
  "ws_backtrack tail r 0 = tail r"
| "ws_backtrack tail r (Suc j) =
     (case tail (drop (Suc j) r) of Some g \<Rightarrow> Some g | None \<Rightarrow> ws_backtrack tail r j)"

definition skip_ws :: "(string \<Rightarrow> 'a option) \<Rightarrow> string \<Rightarrow> 'a option" where
  "skip_ws tail r = ws_backtrack tail r (length (takeWhile isspace r))"

definition literal :: "string \<Rightarrow> (string \<Rightarrow> 'a option) \<Rightarrow> string \<Rightarrow> 'a option" where
  "literal lit tail s = (if startswith s lit then tail (drop (length lit) s) else None)"

text \<open>
  The tails: \<^verbatim>\<open>(\d+)\<close>; \<^verbatim>\<open>\((\d+)\)\<close>; \<^verbatim>\<open>([0-9A-Fa-f\s]+)\<close>;
  \<^verbatim>\<open>(\d+\.\d+\.\d+\.\d+)\<close>. A greedy run of digits never needs to give a digit back, since
  what follows it in these patterns is not a digit.
\<close>

definition digits1 :: "string \<Rightarrow> string option" where
  "digits1 r = (let g = takeWhile isdigit r in if g = [] then None else Some g)"

definition int_re :: "string \<Rightarrow> string option" where
  "int_re = literal ''INTEGER:'' (skip_ws digits1)"

definition counter_re :: "string \<Rightarrow> string option" where
  "counter_re s =
     (case literal ''Counter32:'' (skip_ws digits1) s of
        Some g \<Rightarrow> Some g
      | None \<Rightarrow>
          (case literal ''Counter64:'' (skip_ws digits1) s of
             Some g \<Rightarrow> Some g
           | None \<Rightarrow> literal ''Gauge32:'' (skip_ws digits1) s))"

definition paren_digits :: "string \<Rightarrow> string option" where
  "paren_digits r =
     (case r of
        [] \<Rightarrow> None
      | c # r' \<Rightarrow>
          (let g = takeWhile isdigit r'
           in if c = CHR ''('' \<and> g \<noteq> [] \<and> startswith (drop (length g) r') '')''
              then Some g else None))"

definition timeticks_re :: "string \<Rightarrow> string option" where
  "timeticks_re = literal ''Timeticks:'' (skip_ws paren_digits)"

definition hex_run :: "string \<Rightarrow> string option" where
  "hex_run r =
     (let g = takeWhile (\<lambda>c. ishex c \<or> isspace c) r in if g = [] then None else Some g)"

definition hex_re :: "string \<Rightarrow> string option" where
  "hex_re = literal ''Hex-STRING:'' (skip_ws hex_run)"

fun dotted :: "nat \<Rightarrow> string \<Rightarrow> string option" where
  "dotted 0 r = digits1 r"
| "dotted (Suc n) r =
     (case digits1 r of
        None \<Rightarrow> None
      | Some g \<Rightarrow>
          (case drop (length g) r of
             [] \<Rightarrow> None
           | c # r' \<Rightarrow>
               if c = CHR ''.''
               then (case dotted n r' of None \<Rightarrow> None | Some t \<Rightarrow> Some (g @ ''.'' @ t))
               else None))"

definition ip_re :: "string \<Rightarrow> string option" where
  "ip_re = literal ''IpAddress:'' (skip_ws (dotted 3))"

definition as_int :: "error + int \<Rightarrow> error + 'f snmp_value" where
  "as_int r = (case r of Inl e \<Rightarrow> Inl e | Inr i \<Rightarrow> Inr (PyInt i))"

text \<open>
  \<^verbatim>\<open>parse_snmp_value\<close>, rule by rule in the order of the source. The conversions
  \<^verbatim>\<open>int(match.group(1))\<close> of the first three rules stand outside any \<^verbatim>\<open>try\<close>: an error
  there would leave the function (\<open>as_int\<close> passes it on). Only the last rule catches
  \<^verbatim>\<open>ValueError\<close>.
\<close>

definition parse_snmp_value :: "'f float_ops \<Rightarrow> string \<Rightarrow> error + 'f snmp_value" where
  "parse_snmp_value fo value_str =
     (if value_str = [] \<or> value_str = ''STRING:'' then Inr (PyStr [])
      else if startswith value_str [CHR 0x22] \<and> endswith value_str [CHR 0x22]
      then Inr (PyStr (butlast (tl value_str)))
      else case re_search int_re value_str of
        Some g \<Rightarrow> as_int (py_int g)
      | None \<Rightarrow>
      (case re_search counter_re value_str of
        Some g \<Rightarrow> as_int (py_int g)
      | None \<Rightarrow>
      (case re_search timeticks_re value_str of
        Some g \<Rightarrow> as_int (py_int g)
      | None \<Rightarrow>
      (case re_search hex_re value_str of
        Some g \<Rightarrow>
          (let hex_values = split_ws [] (strip g)
           in if length hex_values = 6 then Inr (PyStr (join '':'' hex_values))
              else Inr (PyStr (strip g)))
      | None \<Rightarrow>
      (case re_search ip_re value_str of
        Some g \<Rightarrow> Inr (PyStr g)
      | None \<Rightarrow>
      (case py_int value_str of
        Inr i \<Rightarrow> Inr (PyInt i)
      | Inl e \<Rightarrow>
          (if e = ValueError
           then (case float_of_str fo value_str of
                   Some f \<Rightarrow> Inr (PyFloat f)
                 | None \<Rightarrow> Inr (PyStr value_str))
           else Inl e)))))))"

text \<open>
  \<^verbatim>\<open>parse_snmp_walk_response\<close>: a dictionary keeps its keys in insertion order and an
  assignment to an existing key keeps the key's place, which is \<open>AList.update\<close>.
\<close>

type_synonym 'f walk_dict = "(string \<times> 'f snmp_value) list"

fun parse_walk_lines ::
  "'f float_ops \<Rightarrow> 'f walk_dict \<Rightarrow> string list \<Rightarrow> error + 'f walk_dict" where
  "parse_walk_lines fo result [] = Inr result"
| "parse_walk_lines fo result (line # rest) =
     (if strip line = [] then parse_walk_lines fo result rest
      else (case split1 CHR ''='' line of
              [p0, p1] \<Rightarrow>
                (case rev (split_on CHR ''.'' (strip p0)) of
                   [] \<Rightarrow> parse_walk_lines fo result rest
                 | index # _ \<Rightarrow>
                     (case parse_snmp_value fo (strip p1) of
                        Inl e \<Rightarrow> Inl e
                      | Inr v \<Rightarrow> parse_walk_lines fo (AList.update index v result) rest))
            | _ \<Rightarrow> parse_walk_lines fo result rest))"

definition parse_snmp_walk_response :: "'f float_ops \<Rightarrow> string \<Rightarrow> error + 'f walk_dict" where
  "parse_snmp_walk_response fo output = parse_walk_lines fo [] (split_on CHR 0x0A output)"

section \<open>Protocol Gateway (snmp/client.py)\<close>

definition OID_CONSTANTS :: "(string \<times> string) list" where
  "OID_CONSTANTS =
     [(''sysName'', ''1.3.6.1.2.1.1.5.0''),
      (''sysDescr'', ''1.3.6.1.2.1.1.1.0''),
      (''sysUpTime'', ''1.3.6.1.2.1.1.3.0''),
      (''sysLocation'', ''1.3.6.1.2.1.1.6.0''),
      (''sysContact'', ''1.3.6.1.2.1.1.4.0''),
      (''sysObjectID'', ''1.3.6.1.2.1.1.2.0''),
      (''ipAddress'', ''1.3.6.1.2.1.4.20.1.1''),
      (''ipAdEntIfIndex'', ''1.3.6.1.2.1.4.20.1.2''),
      (''ifIndex'', ''1.3.6.1.2.1.2.2.1.1''),
      (''ifDescr'', ''1.3.6.1.2.1.2.2.1.2''),
      (''ifName'', ''1.3.6.1.2.1.31.1.1.1.1''),
      (''ifType'', ''1.3.6.1.2.1.2.2.1.3''),
      (''ifMTU'', ''1.3.6.1.2.1.2.2.1.4''),
      (''ifSpeed'', ''1.3.6.1.2.1.2.2.1.5''),
      (''ifPhysAddress'', ''1.3.6.1.2.1.2.2.1.6''),
      (''ifAdminStatus'', ''1.3.6.1.2.1.2.2.1.7''),
      (''ifOperStatus'', ''1.3.6.1.2.1.2.2.1.8''),
      (''ifInOctets'', ''1.3.6.1.2.1.2.2.1.10''),
      (''ifOutOctets'', ''1.3.6.1.2.1.2.2.1.16''),
      (''ifHCInOctets'', ''1.3.6.1.2.1.31.1.1.1.6''),
      (''ifHCOutOctets'', ''1.3.6.1.2.1.31.1.1.1.10''),
      (''ifHighSpeed'', ''1.3.6.1.2.1.31.1.1.1.15''),
      (''ifAlias'', ''1.3.6.1.2.1.31.1.1.1.18'')]"

definition oid_of :: "string \<Rightarrow> string" where
  "oid_of name = (case map_of OID_CONSTANTS name of Some oid \<Rightarrow> oid | None \<Rightarrow> [])"

text \<open>
  The transport runs \<^verbatim>\<open>snmpget\<close> or \<^verbatim>\<open>snmpwalk\<close> as a subprocess. It is a parameter:
  given the world and the command line it either raises or returns the finished process,
  and the next world. \<open>stdout\<close> and \<open>stderr\<close> hold what \<^verbatim>\<open>.decode()\<close> gives for the two
  streams, which is an error for bytes that are not UTF-8.
\<close>

record proc =
  returncode :: int
  stdout :: "error + string"
  stderr :: "error + string"

type_synonym 'w transport = "'w \<Rightarrow> string list \<Rightarrow> (error + proc) \<times> 'w"

definition snmp_cmd ::
  "string \<Rightarrow> string \<Rightarrow> string \<Rightarrow> string \<Rightarrow> int \<Rightarrow> int \<Rightarrow> int \<Rightarrow> string list" where
  "snmp_cmd tool target oid community port timeout retries =
     [tool, ''-v2c'', ''-c'', community, ''-r'', str_int retries, ''-t'', str_int timeout,
      target @ '':'' @ str_int port, oid]"

text \<open>
  The pattern \<^verbatim>\<open>=\s*(.+)$\<close> of \<^verbatim>\<open>snmp_get\<close>: the group is a non-empty run without
  newline that ends at the end of the text (or before a final newline).
\<close>

definition value_tail :: "string \<Rightarrow> string option" where
  "value_tail r =
     (let p = takeWhile (\<lambda>c. c \<noteq> CHR 0x0A) r; rest = drop (length p) r
      in if p \<noteq> [] \<and> (rest = [] \<or> rest = [CHR 0x0A]) then Some p else None)"

definition get_re :: "string \<Rightarrow> string option" where
  "get_re = literal ''='' (skip_ws value_tail)"

text \<open>
  \<open>snmp_get_try\<close> and \<open>snmp_walk_try\<close> are the bodies of the \<^verbatim>\<open>try\<close> blocks;
  \<^verbatim>\<open>except Exception\<close> turns every error of the body into \<^verbatim>\<open>None\<close>, respectively into
  the empty dictionary.
\<close>

definition snmp_get_try :: "'f float_ops \<Rightarrow> error + proc \<Rightarrow> error + 'f snmp_value option" where
  "snmp_get_try fo r =
     (case r of
        Inl e \<Rightarrow> Inl e
      | Inr p \<Rightarrow>
          if returncode p \<noteq> 0
          then (case stderr p of Inl e \<Rightarrow> Inl e | Inr err \<Rightarrow> Inr None)
          else (case stdout p of
                  Inl e \<Rightarrow> Inl e
                | Inr out \<Rightarrow>
                    (let output = strip out
                     in if contains ''No Such Object'' output \<or> contains ''No Such Instance'' output
                        then Inr None
                        else (case re_search get_re output of
                                Some g \<Rightarrow>
                                  (case parse_snmp_value fo (strip g) of
                                     Inl e \<Rightarrow> Inl e
                                   | Inr v \<Rightarrow> Inr (Some v))
                              | None \<Rightarrow> Inr (Some (PyStr output))))))"

definition snmp_get ::
  "'f float_ops \<Rightarrow> 'w transport \<Rightarrow> 'w \<Rightarrow> string \<Rightarrow> string \<Rightarrow> string \<Rightarrow> int \<Rightarrow> int \<Rightarrow> int
     \<Rightarrow> (error + 'f snmp_value option) \<times> 'w" where
  "snmp_get fo run w target oid community port timeout retries =
     (case run w (snmp_cmd ''snmpget'' target oid community port timeout retries) of
        (r, w') \<Rightarrow>
          (case snmp_get_try fo r of
             Inl e \<Rightarrow> (Inr None, w')
           | Inr v \<Rightarrow> (Inr v, w')))"

definition snmp_walk_try :: "'f float_ops \<Rightarrow> error + proc \<Rightarrow> error + 'f walk_dict" where
  "snmp_walk_try fo r =
     (case r of
        Inl e \<Rightarrow> Inl e
      | Inr p \<Rightarrow>
          if returncode p \<noteq> 0
          then (case stderr p of Inl e \<Rightarrow> Inl e | Inr err \<Rightarrow> Inr [])
          else (case stdout p of
                  Inl e \<Rightarrow> Inl e
                | Inr out \<Rightarrow> parse_snmp_walk_response fo (strip out)))"

definition snmp_walk ::
  "'f float_ops \<Rightarrow> 'w transport \<Rightarrow> 'w \<Rightarrow> string \<Rightarrow> string \<Rightarrow> string \<Rightarrow> int \<Rightarrow> int \<Rightarrow> int
     \<Rightarrow> (error + 'f walk_dict) \<times> 'w" where
  "snmp_walk fo run w target oid community port timeout retries =
     (case run w (snmp_cmd ''snmpwalk'' target oid community port timeout retries) of
        (r, w') \<Rightarrow>
          (case snmp_walk_try fo r of
             Inl e \<Rightarrow> (Inr [], w')
           | Inr d \<Rightarrow> (Inr d, w')))"

section \<open>Device identity and Interface Assembler (snmp/client.py)\<close>




definition setdefault_append :: "string \<Rightarrow> string \<Rightarrow> (string \<times> string list) list
    \<Rightarrow> (string \<times> string list) list" where
  "setdefault_append k v mapping =
     AList.update k ((case map_of mapping k of Some vs \<Rightarrow> vs | None \<Rightarrow> []) @ [v]) mapping"

fun ip_mapping_loop ::
  "'f float_ops \<Rightarrow> 'f walk_dict \<Rightarrow> 'f walk_dict \<Rightarrow> (string \<times> string list) list
     \<Rightarrow> (string \<times> string list) list" where
  "ip_mapping_loop fo [] ip_to_if_indices mapping = mapping"
| "ip_mapping_loop fo ((idx, addr) # ip_addresses) ip_to_if_indices mapping =
     (case map_of ip_to_if_indices idx of
        Some i \<Rightarrow>
          ip_mapping_loop fo ip_addresses ip_to_if_indices
            (setdefault_append (py_str fo i) (py_str fo addr) mapping)
      | None \<Rightarrow> ip_mapping_loop fo ip_addresses ip_to_if_indices mapping)"

text \<open>
  The functions that walk several tables also return the list of the identifiers they
  walked, in order, so that "no further walk" can be stated.
\<close>

definition get_ip_to_interface_mapping ::
  "'f float_ops \<Rightarrow> 'w transport \<Rightarrow> 'w \<Rightarrow> string \<Rightarrow> string \<Rightarrow> int \<Rightarrow> int \<Rightarrow> int
     \<Rightarrow> (error + (string \<times> string list) list) \<times> string list \<times> 'w" where
  "get_ip_to_interface_mapping fo run w router_ip community port timeout retries =
     (case snmp_walk fo run w router_ip (oid_of ''ipAddress'') community port timeout retries of
        (Inl e, w1) \<Rightarrow> (Inl e, [oid_of ''ipAddress''], w1)
      | (Inr ip_addresses, w1) \<Rightarrow>
          (case snmp_walk fo run w1 router_ip (oid_of ''ipAdEntIfIndex'') community port timeout
                  retries of
             (Inl e, w2) \<Rightarrow> (Inl e, [oid_of ''ipAddress'', oid_of ''ipAdEntIfIndex''], w2)
           | (Inr ip_to_if_indices, w2) \<Rightarrow>
               (Inr (ip_mapping_loop fo ip_addresses ip_to_if_indices []),
                [oid_of ''ipAddress'', oid_of ''ipAdEntIfIndex''], w2)))"

text \<open>
  \<^verbatim>\<open>INTERFACE_TYPES_TO_MONITOR\<close> is imported from \<^verbatim>\<open>models/interface.py\<close>, which does not
  define it: the allow-list is the parameter \<open>types\<close>, a dictionary from type codes to
  names. \<open>monitored\<close> is the filter loop: \<^verbatim>\<open>int(if_type)\<close> may raise, and only
  \<^verbatim>\<open>ValueError\<close> and \<^verbatim>\<open>TypeError\<close> are caught there.
\<close>

fun monitored ::
  "'f float_ops \<Rightarrow> (int \<times> string) list \<Rightarrow> 'f walk_dict \<Rightarrow> error + string list" where
  "monitored fo types [] = Inr []"
| "monitored fo types ((index, if_type) # items) =
     (case py_int_of fo if_type of
        Inl e \<Rightarrow>
          if e = ValueError \<or> e = TypeError then monitored fo types items else Inl e
      | Inr if_type_int \<Rightarrow>
          (case monitored fo types items of
             Inl e \<Rightarrow> Inl e
           | Inr rest \<Rightarrow>
               if if_type_int \<in> fst ` set types then Inr (index # rest) else Inr rest))"

definition type_label ::
  "'f float_ops \<Rightarrow> (int \<times> string) list \<Rightarrow> 'f walk_dict \<Rightarrow> string \<Rightarrow> error + string" where
  "type_label fo types if_types index =
     (case map_of if_types index of
        None \<Rightarrow> Inl KeyError
      | Some t \<Rightarrow>
          (case py_int_of fo t of
             Inl e \<Rightarrow> Inl e
           | Inr i \<Rightarrow>
               Inr (py_str fo t @ '' ('' @
                    (case map_of types i of Some n \<Rightarrow> n | None \<Rightarrow> ''Unknown'') @ '')'')))"

type_synonym 'f interfaces = "(string \<times> 'f pydict) list"

fun initial_records ::
  "'f float_ops \<Rightarrow> (int \<times> string) list \<Rightarrow> 'f walk_dict \<Rightarrow> 'f interfaces \<Rightarrow> string list
     \<Rightarrow> error + 'f interfaces" where
  "initial_records fo types if_types interfaces [] = Inr interfaces"
| "initial_records fo types if_types interfaces (index # indices) =
     (case type_label fo types if_types index of
        Inl e \<Rightarrow> Inl e
      | Inr label \<Rightarrow>
          initial_records fo types if_types
            (AList.update index
               [(''ifIndex'', Some (PyStr index)), (''ifType'', Some (PyStr label))] interfaces)
            indices)"

fun merge_values ::
  "string \<Rightarrow> 'f walk_dict \<Rightarrow> string list \<Rightarrow> 'f interfaces \<Rightarrow> error + 'f interfaces" where
  "merge_values name values [] interfaces = Inr interfaces"
| "merge_values name values (index # indices) interfaces =
     (case map_of interfaces index of
        None \<Rightarrow> Inl KeyError
      | Some record \<Rightarrow>
          merge_values name values indices
            (AList.update index (AList.update name (map_of values index) record) interfaces))"

fun attribute_loop ::
  "'f float_ops \<Rightarrow> 'w transport \<Rightarrow> string \<Rightarrow> string \<Rightarrow> int \<Rightarrow> int \<Rightarrow> int \<Rightarrow> string list
     \<Rightarrow> (string \<times> string) list \<Rightarrow> 'f interfaces \<Rightarrow> string list \<Rightarrow> 'w
     \<Rightarrow> (error + 'f interfaces) \<times> string list \<times> 'w" where
  "attribute_loop fo run router_ip community port timeout retries monitored_indices []
       interfaces walked w = (Inr interfaces, walked, w)"
| "attribute_loop fo run router_ip community port timeout retries monitored_indices
       ((name, oid) # items) interfaces walked w =
     (if name = ''ifIndex'' \<or> name = ''ifType'' \<or> startswith name ''sys''
      then attribute_loop fo run router_ip community port timeout retries monitored_indices
             items interfaces walked w
      else (case snmp_walk fo run w router_ip oid community port timeout retries of
              (Inl e, w') \<Rightarrow> (Inl e, walked @ [oid], w')
            | (Inr values, w') \<Rightarrow>
                (case merge_values name values monitored_indices interfaces of
                   Inl e \<Rightarrow> (Inl e, walked @ [oid], w')
                 | Inr interfaces' \<Rightarrow>
                     attribute_loop fo run router_ip community port timeout retries
                       monitored_indices items interfaces' (walked @ [oid]) w')))"

definition add_ip_addresses ::
  "(string \<times> string list) list \<Rightarrow> 'f interfaces \<Rightarrow> 'f interfaces" where
  "add_ip_addresses ip_if_mapping interfaces =
     map (\<lambda>(index, record).
            (index,
             AList.update ''ipAddresses''
               (Some (PyStr (join '', ''
                  (case map_of ip_if_mapping index of Some ips \<Rightarrow> ips | None \<Rightarrow> []))))
               record))
       interfaces"

definition get_monitored_interfaces ::
  "'f float_ops \<Rightarrow> (int \<times> string) list \<Rightarrow> 'w transport \<Rightarrow> 'w \<Rightarrow> string \<Rightarrow> string
     \<Rightarrow> int \<Rightarrow> int \<Rightarrow> int \<Rightarrow> (error + 'f interfaces) \<times> string list \<times> 'w" where
  "get_monitored_interfaces fo types run w router_ip community port timeout retries =
     (case snmp_walk fo run w router_ip (oid_of ''ifType'') community port timeout retries of
        (Inl e, w1) \<Rightarrow> (Inl e, [oid_of ''ifType''], w1)
      | (Inr if_types, w1) \<Rightarrow>
          if if_types = [] then (Inr [], [oid_of ''ifType''], w1)
          else
            (case monitored fo types if_types of
               Inl e \<Rightarrow> (Inl e, [oid_of ''ifType''], w1)
             | Inr monitored_indices \<Rightarrow>
                 if monitored_indices = [] then (Inr [], [oid_of ''ifType''], w1)
                 else
                   (case initial_records fo types if_types [] monitored_indices of
                      Inl e \<Rightarrow> (Inl e, [oid_of ''ifType''], w1)
                    | Inr interfaces \<Rightarrow>
                        (case attribute_loop fo run router_ip community port timeout retries
                                monitored_indices OID_CONSTANTS interfaces [oid_of ''ifType''] w1 of
                           (Inl e, walked, w2) \<Rightarrow> (Inl e, walked, w2)
                         | (Inr interfaces', walked, w2) \<Rightarrow>
                             (case get_ip_to_interface_mapping fo run w2 router_ip community port
                                     timeout retries of
                                (Inl e, walked', w3) \<Rightarrow> (Inl e, walked @ walked', w3)
                              | (Inr ip_if_mapping, walked', w3) \<Rightarrow>
                                  (Inr (add_ip_addresses ip_if_mapping interfaces'),
                                   walked @ walked', w3))))))"

section \<open>Poll Orchestrator and device list (main.py)\<close>

text \<open>
  \<^verbatim>\<open>process_routers\<close> keeps two result collections shared by all tasks: the counter
  \<^verbatim>\<open>successful_count\<close> and the list \<^verbatim>\<open>failed_routers\<close>.
\<close>

record poll_state =
  successful_count :: nat
  failed_routers :: "string list"

text \<open>
  \<^verbatim>\<open>process_router\<close> (the Device Poller) is imported from \<^verbatim>\<open>models/router.py\<close> but is
  not defined there; it is a parameter of the model, and returns its verdict, success or
  failure. It polls a device, so it is effectful: it takes the world (network, store) and
  returns it with the verdict. The tasks run concurrently, and each records its verdict in
  one uninterrupted step when its poll returns: there is no \<^verbatim>\<open>await\<close> between the return
  of the poll and the update of the collections. The model runs the tasks in list order. A
  scheduler that completes them in another order gives the model's run on the permuted
  list, for some world and poller; the statements below hold for every list, world and
  poller.
\<close>

type_synonym 'w poller = "'w \<Rightarrow> string \<Rightarrow> bool \<times> 'w"

definition process_router_with_semaphore ::
  "'w poller \<Rightarrow> 'w \<times> poll_state \<Rightarrow> string \<Rightarrow> 'w \<times> poll_state" where
  "process_router_with_semaphore process_router s router_ip =
     (case process_router (fst s) router_ip of
        (success, w') \<Rightarrow>
          if success
          then (w', (snd s)\<lparr>successful_count := successful_count (snd s) + 1\<rparr>)
          else (w', (snd s)\<lparr>failed_routers := failed_routers (snd s) @ [router_ip]\<rparr>))"

definition gather :: "'w poller \<Rightarrow> 'w \<Rightarrow> string list \<Rightarrow> 'w \<times> poll_state" where
  "gather process_router w router_ips =
     foldl (process_router_with_semaphore process_router)
       (w, \<lparr>successful_count = 0, failed_routers = []\<rparr>) router_ips"

text \<open>
  \<^verbatim>\<open>save_failed_routers\<close> overwrites the failure file with one address per line. It is
  called only for a non-empty list and swallows its own errors.
\<close>

definition failed_file :: "'w poller \<Rightarrow> 'w \<Rightarrow> string list \<Rightarrow> string list option" where
  "failed_file process_router w router_ips =
     (let failed = failed_routers (snd (gather process_router w router_ips))
      in if failed \<noteq> [] then Some failed else None)"






















section \<open>Persistence Engine (db/connection.py, db/interface_dao.py)\<close>

text \<open>
  \<^verbatim>\<open>execute_with_retry\<close>: a statement either raises the store's error (\<open>True\<close>) or
  completes, and changes the store. The model records the delays slept.
\<close>

type_synonym 's statement = "'s \<Rightarrow> bool \<times> 's"

function execute_with_retry_loop ::
  "'s statement \<Rightarrow> nat \<Rightarrow> nat \<Rightarrow> real list \<Rightarrow> 's \<Rightarrow> (error + bool) \<times> real list \<times> 's" where
  "execute_with_retry_loop execute max_retries retry_count slept s =
     (if retry_count < max_retries
      then (case execute s of
              (False, s') \<Rightarrow> (Inr True, slept, s')
            | (True, s') \<Rightarrow>
                (let backoff = 0.5 * 2 ^ (retry_count + 1)
                 in if retry_count + 1 \<ge> max_retries then (Inl DbError, slept, s')
                    else execute_with_retry_loop execute max_retries (retry_count + 1)
                           (slept @ [backoff]) s'))
      else (Inr False, slept, s))"
  by pat_completeness auto
termination
  by (relation "measure (\<lambda>(execute, max_retries, retry_count, slept, s). max_retries - retry_count)")
     auto

declare execute_with_retry_loop.simps [simp del]

definition execute_with_retry ::
  "'s statement \<Rightarrow> nat \<Rightarrow> 's \<Rightarrow> (error + bool) \<times> real list \<times> 's" where
  "execute_with_retry execute max_retries s = execute_with_retry_loop execute max_retries 0 [] s"

text \<open>
  The context manager \<^verbatim>\<open>db_connection\<close> is a generator with a retry loop around its
  \<^verbatim>\<open>yield\<close>. \<open>pool\<close> lists the outcomes of the coming \<^verbatim>\<open>get_connection\<close> calls
  (\<open>True\<close> raises; past the end of the list they succeed). \<open>get_connection_loop\<close> runs the
  loop up to the \<^verbatim>\<open>yield\<close> or the \<^verbatim>\<open>raise\<close>. \<open>db_connection_throw\<close> is what leaves the
  \<^verbatim>\<open>with\<close> statement when its body raises \<open>e\<close>: an exception that is not the store's
  passes through; the store's error is caught by the generator, which loops and either
  yields again (\<^verbatim>\<open>contextlib\<close> then raises \<^verbatim>\<open>RuntimeError\<close>, "generator didn't stop
  after throw()") or raises.
\<close>

datatype acquired = Yielded nat | Raised error

function get_connection_loop :: "nat \<Rightarrow> bool list \<Rightarrow> acquired \<times> bool list" where
  "get_connection_loop retry_count pool =
     (if retry_count < 3
      then (case pool of
              [] \<Rightarrow> (Yielded retry_count, [])
            | f # fs \<Rightarrow>
                if f then (if retry_count + 1 \<ge> 3 then (Raised DbError, fs)
                           else get_connection_loop (retry_count + 1) fs)
                else (Yielded retry_count, fs))
      else (Raised RuntimeError, pool))"
  by pat_completeness auto
termination
  by (relation "measure (\<lambda>(retry_count, pool). 3 - retry_count)") auto

declare get_connection_loop.simps [simp del]

definition db_connection_throw :: "nat \<Rightarrow> bool list \<Rightarrow> error \<Rightarrow> error" where
  "db_connection_throw retry_count pool e =
     (if e = DbError
      then (if retry_count + 1 \<ge> 3 then e
            else (case fst (get_connection_loop (retry_count + 1) pool) of
                    Yielded n \<Rightarrow> RuntimeError
                  | Raised e' \<Rightarrow> e'))
      else e)"

text \<open>
  The store of the sample table: its rows, and the outcomes of the coming
  \<^verbatim>\<open>executemany\<close>/\<^verbatim>\<open>commit\<close> attempts (\<open>True\<close> raises the store's error).
\<close>

type_synonym stat_row = "int \<times> string \<times> int \<times> int \<times> int \<times> int \<times> int \<times> int"

record store =
  interface_stats :: "stat_row list"
  faults :: "bool list"

definition executemany_commit :: "stat_row list \<Rightarrow> store \<Rightarrow> bool \<times> store" where
  "executemany_commit rows st =
     (case faults st of
        [] \<Rightarrow> (False, st\<lparr>interface_stats := interface_stats st @ rows\<rparr>)
      | f # fs \<Rightarrow>
          if f then (True, st\<lparr>faults := fs\<rparr>)
          else (False, st\<lparr>interface_stats := interface_stats st @ rows, faults := fs\<rparr>))"

text \<open>
  \<^verbatim>\<open>interface_dao.py\<close> imports \<^verbatim>\<open>from datetime import datetime, time\<close>: in that module
  \<^verbatim>\<open>time\<close> is the class \<^verbatim>\<open>datetime.time\<close>, which has no attribute \<^verbatim>\<open>sleep\<close>, so
  \<^verbatim>\<open>time.sleep(...)\<close> raises \<^verbatim>\<open>AttributeError\<close>.
\<close>

definition time_sleep :: "real \<Rightarrow> error + unit" where
  "time_sleep seconds = Inl AttributeError"

text \<open>
  \<^verbatim>\<open>int(interface.get(key, 0) or 0)\<close> is \<open>int_or_zero\<close>. The keys of the interface map are
  the integers of the \<^verbatim>\<open>ifIndex\<close> column; a string is equal to none of them.
\<close>

definition int_or_zero :: "'f float_ops \<Rightarrow> 'f snmp_value option \<Rightarrow> error + int" where
  "int_or_zero fo x =
     (case x of None \<Rightarrow> Inr 0 | Some v \<Rightarrow> if truthy fo v then py_int_of fo v else Inr 0)"

definition index_key :: "'f float_ops \<Rightarrow> 'f snmp_value option \<Rightarrow> int option" where
  "index_key fo x =
     (case x of
        None \<Rightarrow> None
      | Some (PyInt i) \<Rightarrow> Some i
      | Some (PyFloat f) \<Rightarrow> integral_float fo f
      | Some (PyStr s) \<Rightarrow> None)"

definition lookup_interface :: "'f float_ops \<Rightarrow> (int \<times> int) list \<Rightarrow> 'f snmp_value option \<Rightarrow> int option" where
  "lookup_interface fo interface_map if_index =
     (case index_key fo if_index of None \<Rightarrow> None | Some i \<Rightarrow> map_of interface_map i)"

definition stats_row ::
  "'f float_ops \<Rightarrow> int \<Rightarrow> string \<Rightarrow> 'f pydict \<Rightarrow> error + stat_row" where
  "stats_row fo interface_id current_time interface =
     (case int_or_zero fo (dict_get interface ''ifAdminStatus'') of Inl e \<Rightarrow> Inl e | Inr a \<Rightarrow>
      case int_or_zero fo (dict_get interface ''ifOperStatus'') of Inl e \<Rightarrow> Inl e | Inr b \<Rightarrow>
      case int_or_zero fo (dict_get interface ''ifInOctets'') of Inl e \<Rightarrow> Inl e | Inr c \<Rightarrow>
      case int_or_zero fo (dict_get interface ''ifOutOctets'') of Inl e \<Rightarrow> Inl e | Inr d \<Rightarrow>
      case int_or_zero fo (dict_get interface ''ifHCInOctets'') of Inl e \<Rightarrow> Inl e | Inr g \<Rightarrow>
      case int_or_zero fo (dict_get interface ''ifHCOutOctets'') of Inl e \<Rightarrow> Inl e | Inr h \<Rightarrow>
        Inr (interface_id, current_time, a, b, c, d, g, h))"

fun stats_values ::
  "'f float_ops \<Rightarrow> (int \<times> int) list \<Rightarrow> string \<Rightarrow> 'f pydict list \<Rightarrow> stat_row list
     \<Rightarrow> error + stat_row list" where
  "stats_values fo interface_map current_time [] acc = Inr acc"
| "stats_values fo interface_map current_time (interface # rest) acc =
     (case lookup_interface fo interface_map (dict_get interface ''ifIndex'') of
        None \<Rightarrow> stats_values fo interface_map current_time rest acc
      | Some interface_id \<Rightarrow>
          (case stats_row fo interface_id current_time interface of
             Inl e \<Rightarrow> Inl e
           | Inr row \<Rightarrow> stats_values fo interface_map current_time rest (acc @ [row])))"

function insert_loop :: "stat_row list \<Rightarrow> nat \<Rightarrow> store \<Rightarrow> (error + bool) \<times> store" where
  "insert_loop rows retry_count st =
     (if retry_count < 3
      then (case executemany_commit rows st of
              (False, st') \<Rightarrow> (Inr True, st')
            | (True, st') \<Rightarrow>
                if retry_count + 1 \<ge> 3 then (Inl DbError, st')
                else (case time_sleep (0.5 * 2 ^ (retry_count + 1)) of
                        Inl e \<Rightarrow> (Inl e, st')
                      | Inr u \<Rightarrow> insert_loop rows (retry_count + 1) st'))
      else (Inr False, st))"
  by pat_completeness auto
termination
  by (relation "measure (\<lambda>(rows, retry_count, st). 3 - retry_count)") auto

declare insert_loop.simps [simp del]

text \<open>
  \<^verbatim>\<open>save_interface_stats_batch\<close>. \<open>cursor_error\<close> says whether \<^verbatim>\<open>connection.cursor()\<close>
  raises the store's error; \<open>id_map\<close> is what \<^verbatim>\<open>get_interface_id_map\<close> returns or raises.
  \<open>batch_body\<close> is the body of the \<^verbatim>\<open>with\<close> statement and \<open>except_Error\<close> the handler
  \<^verbatim>\<open>except Error: return False\<close>.
\<close>

definition batch_body ::
  "'f float_ops \<Rightarrow> bool \<Rightarrow> error + (int \<times> int) list \<Rightarrow> string \<Rightarrow> 'f pydict list
     \<Rightarrow> store \<Rightarrow> (error + bool) \<times> store" where
  "batch_body fo cursor_error id_map current_time interfaces_data st =
     (if cursor_error then (Inl DbError, st)
      else (case id_map of
              Inl e \<Rightarrow> (Inl e, st)
            | Inr interface_map \<Rightarrow>
                if interface_map = [] then (Inr False, st)
                else (case stats_values fo interface_map current_time interfaces_data [] of
                        Inl e \<Rightarrow> (Inl e, st)
                      | Inr rows \<Rightarrow>
                          if rows \<noteq> [] then insert_loop rows 0 st else (Inr False, st))))"

definition except_Error :: "error \<Rightarrow> error + bool" where
  "except_Error e = (if e = DbError then Inr False else Inl e)"

definition save_interface_stats_batch ::
  "'f float_ops \<Rightarrow> bool list \<Rightarrow> bool \<Rightarrow> error + (int \<times> int) list \<Rightarrow> string
     \<Rightarrow> 'f pydict list \<Rightarrow> store \<Rightarrow> (error + bool) \<times> store" where
  "save_interface_stats_batch fo pool cursor_error id_map current_time interfaces_data st =
     (case get_connection_loop 0 pool of
        (Raised e, pool') \<Rightarrow> (except_Error e, st)
      | (Yielded retry_count, pool') \<Rightarrow>
          (case batch_body fo cursor_error id_map current_time interfaces_data st of
             (Inr success, st') \<Rightarrow> (Inr success, st')
           | (Inl e, st') \<Rightarrow> (except_Error (db_connection_throw retry_count pool' e), st')))"

section \<open>Partition Maintainer (db/schema.py)\<close>

text \<open>
  A date is its day number (\<^verbatim>\<open>TO_DAYS\<close>). The partition table is the list of its rows:
  name and upper bound. The name \<^verbatim>\<open>p_YYYYMMDD\<close> is determined by the start date and
  determines it, so it is modelled as \<open>p_date start\<close>. The store holds the table and the
  outcomes of the statements to come (\<open>True\<close>: the statement raises the store's error; past
  the end of the list every statement completes). A query changes nothing; an
  \<^verbatim>\<open>ADD PARTITION\<close> that completes appends the partition, one that raises adds nothing.
  \<^verbatim>\<open>FROM_DAYS\<close> gives back the date of a bound.
\<close>

datatype pname = p_default | p_date int

type_synonym partition = "pname \<times> int"











section \<open>Utilization Calculator (db/interface_dao.py)\<close>

text \<open>
  A sample row as \<^verbatim>\<open>calculate_interface_utilization\<close> reads it: the timestamp in seconds
  and the four counters, which \<^verbatim>\<open>save_interface_stats_batch\<close> always writes as integers.
  The columns are signed (\<^verbatim>\<open>BIGINT\<close>), so a counter may be negative. The speeds of the
  interface row may be \<^verbatim>\<open>NULL\<close>. Rates are real numbers here; Python computes them in
  floating point, which rounds but keeps the sign.
\<close>

record sample =
  timestamp :: int
  ifInOctets :: int
  ifOutOctets :: int
  ifHCInOctets :: int
  ifHCOutOctets :: int

record interface_row =
  ifHighSpeed :: "int option"
  ifSpeed :: "int option"

record utilization =
  u_timestamp :: int
  in_bps :: real
  out_bps :: real
  in_utilization :: real
  out_utilization :: real

definition in_bytes :: "sample \<Rightarrow> sample \<Rightarrow> int" where
  "in_bytes prev cur =
     (let d = (if ifHCInOctets cur \<noteq> 0 \<and> ifHCInOctets prev \<noteq> 0
               then ifHCInOctets cur - ifHCInOctets prev
               else ifInOctets cur - ifInOctets prev)
      in if d < 0 then (if ifHCInOctets cur \<noteq> 0 then ifHCInOctets cur else ifInOctets cur)
         else d)"

definition out_bytes :: "sample \<Rightarrow> sample \<Rightarrow> int" where
  "out_bytes prev cur =
     (let d = (if ifHCOutOctets cur \<noteq> 0 \<and> ifHCOutOctets prev \<noteq> 0
               then ifHCOutOctets cur - ifHCOutOctets prev
               else ifOutOctets cur - ifOutOctets prev)
      in if d < 0 then (if ifHCOutOctets cur \<noteq> 0 then ifHCOutOctets cur else ifOutOctets cur)
         else d)"

definition pair_utilization :: "int \<Rightarrow> sample \<Rightarrow> sample \<Rightarrow> utilization" where
  "pair_utilization interface_speed prev cur =
     (let time_diff = real_of_int (timestamp cur - timestamp prev);
          ibps = real_of_int (in_bytes prev cur * 8) / time_diff;
          obps = real_of_int (out_bytes prev cur * 8) / time_diff;
          speed_bps = interface_speed * 1000000
      in \<lparr>u_timestamp = timestamp cur, in_bps = ibps, out_bps = obps,
          in_utilization = (if speed_bps > 0 then ibps / real_of_int speed_bps * 100 else 0),
          out_utilization = (if speed_bps > 0 then obps / real_of_int speed_bps * 100 else 0)\<rparr>)"

fun utilization_loop :: "int \<Rightarrow> sample \<Rightarrow> sample list \<Rightarrow> utilization list" where
  "utilization_loop interface_speed prev [] = []"
| "utilization_loop interface_speed prev (cur # rest) =
     (if timestamp cur - timestamp prev \<le> 0 then utilization_loop interface_speed cur rest
      else pair_utilization interface_speed prev cur # utilization_loop interface_speed cur rest)"

text \<open>
  A missing interface, a zero speed and fewer than two samples give the empty list. A speed
  that is \<^verbatim>\<open>None\<close> gives it as well: either no pair is computed, or the product
  \<^verbatim>\<open>interface_speed * 1000000\<close> raises and \<^verbatim>\<open>except Exception\<close> returns the empty list.
\<close>

definition calculate_interface_utilization ::
  "interface_row option \<Rightarrow> sample list \<Rightarrow> utilization list" where
  "calculate_interface_utilization interface stats =
     (case interface of
        None \<Rightarrow> []
      | Some row \<Rightarrow>
          (let interface_speed =
                 (case ifHighSpeed row of
                    None \<Rightarrow> ifSpeed row
                  | Some h \<Rightarrow> if h = 0 then ifSpeed row else Some h)
           in case interface_speed of
                None \<Rightarrow> []
              | Some speed \<Rightarrow>
                  if speed = 0 then []
                  else if length stats < 2 then []
                  else (case stats of
                          [] \<Rightarrow> []
                        | prev # rest \<Rightarrow> utilization_loop speed prev rest)))"

section \<open>Notions used in the statements\<close>

text \<open>A transport failure, and a response that carries a "not found" marker.\<close>

definition transport_failed :: "error + proc \<Rightarrow> bool" where
  "transport_failed r =
     (case r of Inl e \<Rightarrow> True | Inr p \<Rightarrow> returncode p \<noteq> 0 \<or> isl (stdout p))"

definition not_found :: "error + proc \<Rightarrow> bool" where
  "not_found r =
     (case r of
        Inl e \<Rightarrow> False
      | Inr p \<Rightarrow>
          returncode p = 0 \<and>
          (case stdout p of
             Inl e \<Rightarrow> False
           | Inr out \<Rightarrow>
               contains ''No Such Object'' (strip out) \<or> contains ''No Such Instance'' (strip out)))"



text \<open>
  A non-empty run of digits; a line the reader keeps and the text it keeps for it; the
  delays of the attempts \<open>lo\<close> to \<open>hi - 1\<close>; new partitions whose names differ from each
  other and from those of the table.
\<close>

definition digit_string :: "string \<Rightarrow> bool" where
  "digit_string g = (g \<noteq> [] \<and> list_all isdigit g)"



definition backoffs :: "nat \<Rightarrow> nat \<Rightarrow> real list" where
  "backoffs lo hi = map (\<lambda>attempt. 0.5 * 2 ^ attempt) [lo..<hi]"


text \<open>
  The partitions a run created, the days the dated partitions reach beyond today, and the
  naming discipline of the table (a dated partition is named by a start before its bound).
\<close>

definition created :: "partition list \<Rightarrow> partition list \<Rightarrow> partition list" where
  "created before after = drop (length before) after"







section \<open>Concrete devices, files and stores\<close>

text \<open>
  A float-free instance of the built-ins on floats, a device that answers from a script, a
  poller that succeeds once, a statement that fails as scripted, and sample data.
\<close>

definition nofloat :: "unit float_ops" where
  "nofloat = \<lparr>float_of_str = (\<lambda>s. None), int_of_float = (\<lambda>f. Inr 0),
     bool_of_float = (\<lambda>f. False), integral_float = (\<lambda>f. Some 0), str_of_float = (\<lambda>f. ''0.0'')\<rparr>"

text \<open>
  The three special values of \<^verbatim>\<open>float\<close>, with what the built-ins do on them:
  \<^verbatim>\<open>float('inf')\<close>, \<^verbatim>\<open>float('-inf')\<close> and \<^verbatim>\<open>float('nan')\<close> read them, \<^verbatim>\<open>int\<close> raises
  \<^verbatim>\<open>OverflowError\<close> on an infinity and \<^verbatim>\<open>ValueError\<close> on a NaN, all three are true and none
  is equal to an integer. The instance holds no other float and is used on these three
  spellings only.
\<close>

datatype special = Infinity | MinusInfinity | NaN

definition special_floats :: "special float_ops" where
  "special_floats =
     \<lparr>float_of_str = (\<lambda>s. if s = ''inf'' then Some Infinity
                           else if s = ''-inf'' then Some MinusInfinity
                           else if s = ''nan'' then Some NaN else None),
      int_of_float = (\<lambda>f. case f of NaN \<Rightarrow> Inl ValueError | _ \<Rightarrow> Inl OverflowError),
      bool_of_float = (\<lambda>f. True),
      integral_float = (\<lambda>f. None),
      str_of_float = (\<lambda>f. case f of Infinity \<Rightarrow> ''inf'' | MinusInfinity \<Rightarrow> ''-inf''
                                | NaN \<Rightarrow> ''nan'')\<rparr>"

definition scripted :: "(error + proc) list transport" where
  "scripted w cmd = (case w of [] \<Rightarrow> (Inl OSError, []) | r # rs \<Rightarrow> (r, rs))"

definition ok :: "string \<Rightarrow> error + proc" where
  "ok out = Inr \<lparr>returncode = 0, stdout = Inr out, stderr = Inr []\<rparr>"

definition iftypes :: "(int \<times> string) list" where
  "iftypes = [(6, ''ethernetCsmacd''), (161, ''ieee8023adLag'')]"


definition flaky_statement :: "bool list statement" where
  "flaky_statement s = (case s of [] \<Rightarrow> (False, []) | f # fs \<Rightarrow> (f, fs))"

definition one_sample :: "unit pydict list" where
  "one_sample = [[(''ifIndex'', Some (PyInt 1)), (''ifInOctets'', Some (PyInt 100))]]"


definition s0 :: sample where
  "s0 = \<lparr>timestamp = 0, ifInOctets = 4000, ifOutOctets = 100, ifHCInOctets = 1000000,
         ifHCOutOctets = 700\<rparr>"


definition s2 :: sample where
  "s2 = \<lparr>timestamp = 60, ifInOctets = - 6, ifOutOctets = 40, ifHCInOctets = 0,
         ifHCOutOctets = 300\<rparr>"

definition gig :: interface_row where
  "gig = \<lparr>ifHighSpeed = Some 100, ifSpeed = Some 100000000\<rparr>"

section \<open>Poll Orchestrator: every task lands in one bucket\<close>









section \<open>Response Parser: a digit run the interpreter refuses\<close>

lemma re_search_Some:
  "re_search m s = Some g \<Longrightarrow> \<exists>t. m t = Some g \<and> length t \<le> length s"
proof (induction s)
  case Nil
  then show ?case by auto
next
  case (Cons c cs)
  show ?case
  proof (cases "m (c # cs)")
    case None
    with Cons.prems have "re_search m cs = Some g" by simp
    then obtain t where "m t = Some g" and "length t \<le> length cs"
      using Cons.IH by blast
    then show ?thesis by (intro exI [of _ t]) simp
  next
    case (Some h)
    with Cons.prems have "m (c # cs) = Some g" by simp
    then show ?thesis by (intro exI [of _ "c # cs"]) simp
  qed
qed

lemma ws_backtrack_Some:
  "ws_backtrack tail r j = Some g \<Longrightarrow> \<exists>t. tail t = Some g \<and> length t \<le> length r"
proof (induction j)
  case 0
  then show ?case by (intro exI [of _ r]) simp
next
  case (Suc j)
  show ?case
  proof (cases "tail (drop (Suc j) r)")
    case None
    with Suc.prems have "ws_backtrack tail r j = Some g" by simp
    then show ?thesis by (rule Suc.IH)
  next
    case (Some h)
    with Suc.prems have "tail (drop (Suc j) r) = Some g" by simp
    then show ?thesis by (intro exI [of _ "drop (Suc j) r"]) simp
  qed
qed

lemma skip_ws_Some:
  "skip_ws tail r = Some g \<Longrightarrow> \<exists>t. tail t = Some g \<and> length t \<le> length r"
  unfolding skip_ws_def by (rule ws_backtrack_Some)

lemma literal_Some:
  "literal lit tail s = Some g \<Longrightarrow> \<exists>t. tail t = Some g \<and> length t \<le> length s"
  unfolding literal_def by (cases "startswith s lit") (auto intro!: exI [of _ "drop (length lit) s"])

lemma digits1_Some: "digits1 r = Some g \<Longrightarrow> digit_string g \<and> length g \<le> length r"
  unfolding digits1_def digit_string_def Let_def
  by (auto split: if_splits simp: list_all_iff length_takeWhile_le dest: set_takeWhileD)

lemma paren_digits_Some: "paren_digits r = Some g \<Longrightarrow> digit_string g \<and> length g \<le> length r"
  unfolding paren_digits_def digit_string_def Let_def
  by (auto split: if_splits list.splits simp: list_all_iff le_SucI length_takeWhile_le
      dest: set_takeWhileD)

lemma literal_digits1:
  assumes "literal lit (skip_ws digits1) t = Some g"
  shows "digit_string g \<and> length g \<le> length t"
proof -
  from assms obtain u where u: "skip_ws digits1 u = Some g \<and> length u \<le> length t"
    by (rule literal_Some [THEN exE])
  from u [THEN conjunct1] obtain r where r: "digits1 r = Some g \<and> length r \<le> length u"
    by (rule skip_ws_Some [THEN exE])
  from r [THEN conjunct1] have "digit_string g \<and> length g \<le> length r"
    by (rule digits1_Some)
  with u r show ?thesis by simp
qed

lemma int_re_Some:
  assumes "re_search int_re s = Some g"
  shows "digit_string g \<and> length g \<le> length s"
proof -
  from assms obtain t where t: "int_re t = Some g \<and> length t \<le> length s"
    by (rule re_search_Some [THEN exE])
  from t [THEN conjunct1] have "digit_string g \<and> length g \<le> length t"
    unfolding int_re_def by (rule literal_digits1)
  with t show ?thesis by simp
qed

lemma counter_re_Some:
  assumes "re_search counter_re s = Some g"
  shows "digit_string g \<and> length g \<le> length s"
proof -
  from assms obtain t where t: "counter_re t = Some g \<and> length t \<le> length s"
    by (rule re_search_Some [THEN exE])
  from t [THEN conjunct1] consider "literal ''Counter32:'' (skip_ws digits1) t = Some g"
    | "literal ''Counter64:'' (skip_ws digits1) t = Some g"
    | "literal ''Gauge32:'' (skip_ws digits1) t = Some g"
    unfolding counter_re_def by (auto split: option.splits)
  then have "digit_string g \<and> length g \<le> length t"
    by cases (rule literal_digits1, assumption)+
  with t show ?thesis by simp
qed

lemma timeticks_re_Some:
  assumes "re_search timeticks_re s = Some g"
  shows "digit_string g \<and> length g \<le> length s"
proof -
  from assms obtain t where t: "timeticks_re t = Some g \<and> length t \<le> length s"
    by (rule re_search_Some [THEN exE])
  from t [THEN conjunct1] obtain u where
      u: "skip_ws paren_digits u = Some g \<and> length u \<le> length t"
    unfolding timeticks_re_def by (rule literal_Some [THEN exE])
  from u [THEN conjunct1] obtain r where r: "paren_digits r = Some g \<and> length r \<le> length u"
    by (rule skip_ws_Some [THEN exE])
  from r [THEN conjunct1] have "digit_string g \<and> length g \<le> length r"
    by (rule paren_digits_Some)
  with t u r show ?thesis by simp
qed

lemma digit_not_space: "isdigit c \<Longrightarrow> \<not> int_space c"
  unfolding isdigit_def int_space_def by auto

lemma digit_not_sign: "isdigit c \<Longrightarrow> c \<noteq> CHR ''-'' \<and> c \<noteq> CHR ''+''"
  unfolding isdigit_def by auto

lemma parse_digits_all: "list_all isdigit g \<Longrightarrow> \<exists>n. parse_digits acc g = Some n"
  by (induction g arbitrary: acc) auto

lemma int_strip_digit_string:
  assumes "digit_string g"
  shows "int_strip g = g"
proof -
  from assms obtain c cs where g: "g = c # cs" and c: "isdigit c"
    unfolding digit_string_def by (cases g) auto
  have d1: "dropWhile int_space g = g"
    using g c digit_not_space by simp
  from assms have "rev g \<noteq> []" and "list_all isdigit (rev g)"
    unfolding digit_string_def by (auto simp: list_all_iff)
  then obtain d ds where r: "rev g = d # ds" and d: "isdigit d"
    by (cases "rev g") auto
  have "dropWhile int_space (rev g) = rev g"
    using r d digit_not_space by simp
  with d1 show ?thesis by (simp add: int_strip_def)
qed

text \<open>
  \<^verbatim>\<open>int\<close> on a run of digits, the group of the first three rules: a value up to 4300 digits,
  \<^verbatim>\<open>ValueError\<close> beyond.
\<close>

lemma py_int_digit_string:
  assumes "digit_string g"
  shows "py_int g = (if max_str_digits < length g then Inl ValueError
                     else Inr (int (the (parse_digits 0 g))))"
proof -
  from assms obtain c cs where g: "g = c # cs" and c: "isdigit c"
    unfolding digit_string_def by (cases g) auto
  from assms have all: "list_all isdigit g" unfolding digit_string_def by simp
  then obtain n where n: "parse_digits 0 g = Some n" using parse_digits_all by blast
  then have u: "unsigned (c # cs) = Some n" using g c by (simp add: unsigned_def)
  from all have f: "filter isdigit (c # cs) = c # cs"
    unfolding g by (simp add: list_all_iff)
  have s: "int_strip (c # cs) = c # cs"
    using int_strip_digit_string [OF assms] unfolding g .
  from digit_not_sign [OF c] have sg: "c \<noteq> CHR ''-''" "c \<noteq> CHR ''+''" by simp_all
  have "py_int (c # cs) = (if max_str_digits < length (c # cs) then Inl ValueError
                           else Inr (int n))"
    unfolding py_int_def s using sg u f by (simp add: Let_def)
  with n show ?thesis unfolding g by simp
qed

lemma py_int_error: "py_int s = Inl e \<Longrightarrow> e = ValueError"
  unfolding py_int_def Let_def by (auto split: list.splits option.splits if_splits)

lemma as_int_short:
  assumes "digit_string g" and "length g \<le> max_str_digits"
  shows "\<exists>i. as_int (py_int g) = Inr (PyInt i)"
  using py_int_digit_string [OF assms(1)] assms(2) by (simp add: as_int_def)

lemma as_int_long:
  assumes "digit_string g" and "max_str_digits < length g"
  shows "as_int (py_int g) = Inl ValueError"
  using py_int_digit_string [OF assms(1)] assms(2) by (simp add: as_int_def)

lemma parse_fallback:
  "\<exists>v. (case py_int s of
        Inr i \<Rightarrow> Inr (PyInt i)
      | Inl e \<Rightarrow>
          (if e = ValueError
           then (case float_of_str fo s of
                   Some f \<Rightarrow> Inr (PyFloat f)
                 | None \<Rightarrow> Inr (PyStr s))
           else Inl e)) = (Inr v :: error + 'f snmp_value)"
proof (cases "py_int s")
  case (Inl e)
  then have "e = ValueError" by (rule py_int_error)
  with Inl show ?thesis by (cases "float_of_str fo s") simp_all
next
  case (Inr i)
  then show ?thesis by simp
qed

text \<open>
  Below the limit the parser is total: on a string of at most 4300 characters it returns a
  value. The only error it can raise is the \<^verbatim>\<open>ValueError\<close> of a conversion of the first three
  rules.
\<close>

lemma parse_snmp_value_short:
  assumes short: "length s \<le> max_str_digits"
  shows "\<exists>v. parse_snmp_value (fo :: 'f float_ops) s = Inr v"
proof (cases "s = [] \<or> s = ''STRING:''")
  case True
  then show ?thesis by (simp add: parse_snmp_value_def)
next
  case ne: False
  show ?thesis
  proof (cases "startswith s [CHR 0x22] \<and> endswith s [CHR 0x22]")
    case True
    with ne show ?thesis by (simp add: parse_snmp_value_def)
  next
    case nq: False
    show ?thesis
    proof (cases "re_search int_re s")
      case (Some g)
      then have "digit_string g" and "length g \<le> max_str_digits"
        using int_re_Some [of s g] short by simp_all
      then obtain i where "as_int (py_int g) = (Inr (PyInt i) :: error + 'f snmp_value)"
        using as_int_short by blast
      with ne nq Some show ?thesis by (simp add: parse_snmp_value_def)
    next
      case n1: None
      show ?thesis
      proof (cases "re_search counter_re s")
        case (Some g)
        then have "digit_string g" and "length g \<le> max_str_digits"
          using counter_re_Some [of s g] short by simp_all
        then obtain i where "as_int (py_int g) = (Inr (PyInt i) :: error + 'f snmp_value)"
          using as_int_short by blast
        with ne nq n1 Some show ?thesis by (simp add: parse_snmp_value_def)
      next
        case n2: None
        show ?thesis
        proof (cases "re_search timeticks_re s")
          case (Some g)
          then have "digit_string g" and "length g \<le> max_str_digits"
            using timeticks_re_Some [of s g] short by simp_all
          then obtain i where "as_int (py_int g) = (Inr (PyInt i) :: error + 'f snmp_value)"
            using as_int_short by blast
          with ne nq n1 n2 Some show ?thesis by (simp add: parse_snmp_value_def)
        next
          case n3: None
          show ?thesis
          proof (cases "re_search hex_re s")
            case (Some g)
            with ne nq n1 n2 n3 show ?thesis by (simp add: parse_snmp_value_def Let_def)
          next
            case n4: None
            show ?thesis
            proof (cases "re_search ip_re s")
              case (Some g)
              with ne nq n1 n2 n3 n4 show ?thesis by (simp add: parse_snmp_value_def)
            next
              case n5: None
              obtain v where "(case py_int s of
                  Inr i \<Rightarrow> Inr (PyInt i)
                | Inl e \<Rightarrow>
                    (if e = ValueError
                     then (case float_of_str fo s of
                             Some f \<Rightarrow> Inr (PyFloat f)
                           | None \<Rightarrow> Inr (PyStr s))
                     else Inl e)) = (Inr v :: error + 'f snmp_value)"
                using parse_fallback [of s fo] by blast
              with ne nq n1 n2 n3 n4 n5 show ?thesis
                by (simp add: parse_snmp_value_def)
            qed
          qed
        qed
      qed
    qed
  qed
qed

lemma parse_snmp_value_error:
  "parse_snmp_value (fo :: 'f float_ops) s = Inl e \<Longrightarrow> e = ValueError"
  unfolding parse_snmp_value_def as_int_def Let_def
  by (auto split: if_splits option.splits sum.splits dest: py_int_error)

text \<open>
  An \<^verbatim>\<open>INTEGER\<close> value of \<open>n\<close> digits, and a response that carries it.
\<close>

lemma int_re_long: "re_search int_re (''INTEGER: '' @ replicate (Suc n) CHR ''1'') =
    Some (replicate (Suc n) CHR ''1'')"
proof -
  have "takeWhile isspace (CHR '' '' # replicate (Suc n) CHR ''1'') = [CHR '' '']"
    by (simp add: isspace_def)
  moreover have "digits1 (replicate (Suc n) CHR ''1'') = Some (replicate (Suc n) CHR ''1'')"
    unfolding digits1_def Let_def by (simp add: isdigit_def)
  ultimately have "int_re (''INTEGER: '' @ replicate (Suc n) CHR ''1'') =
      Some (replicate (Suc n) CHR ''1'')"
    unfolding int_re_def literal_def skip_ws_def startswith_def by simp
  then show ?thesis by simp
qed

lemma long_integer_raises:
  assumes "max_str_digits \<le> n"
  shows "parse_snmp_value fo (''INTEGER: '' @ replicate (Suc n) CHR ''1'') = Inl ValueError"
proof -
  have "digit_string (replicate (Suc n) CHR ''1'')"
    unfolding digit_string_def by (simp add: list_all_iff isdigit_def)
  moreover have "max_str_digits < length (replicate (Suc n) CHR ''1'')"
    using assms by simp
  ultimately have "as_int (py_int (replicate (Suc n) CHR ''1'')) =
      (Inl ValueError :: error + 'a snmp_value)"
    by (rule as_int_long)
  then show ?thesis
    unfolding parse_snmp_value_def int_re_long
    by (simp add: startswith_def)
qed

lemma strip_id:
  assumes "s \<noteq> []" and "\<not> isspace (hd s)" and "\<not> isspace (last s)"
  shows "strip s = s"
proof -
  from assms(1,2) have d1: "dropWhile isspace s = s" by (cases s) auto
  from assms(1,3) have "dropWhile isspace (rev s) = rev s"
    by (cases "rev s") (auto simp: last_rev [symmetric] simp del: last_rev)
  with d1 show ?thesis by (simp add: strip_def)
qed

lemma contains_ones:
  "c \<noteq> CHR ''1'' \<Longrightarrow> \<not> contains (c # sub) (replicate n CHR ''1'')"
  by (induction n) (auto simp: startswith_def)

lemma long_response_no_marker:
  "\<not> contains ''No Such Object'' (''IF-MIB::ifNumber.0 = INTEGER: '' @ replicate (Suc n) CHR ''1'') \<and>
   \<not> contains ''No Such Instance'' (''IF-MIB::ifNumber.0 = INTEGER: '' @ replicate (Suc n) CHR ''1'')"
  using contains_ones [of "CHR ''N''" "''o Such Object''" n]
    contains_ones [of "CHR ''N''" "''o Such Instance''" n]
  by (simp add: startswith_def)

lemma long_response_strip:
  "strip (''IF-MIB::ifNumber.0 = INTEGER: '' @ replicate (Suc n) CHR ''1'') =
     ''IF-MIB::ifNumber.0 = INTEGER: '' @ replicate (Suc n) CHR ''1''"
  by (rule strip_id) (simp_all add: isspace_def)

lemma long_response_value:
  "re_search get_re (''IF-MIB::ifNumber.0 = INTEGER: '' @ replicate (Suc n) CHR ''1'') =
     Some (''INTEGER: '' @ replicate (Suc n) CHR ''1'')"
proof -
  have "takeWhile isspace ('' INTEGER: '' @ replicate (Suc n) CHR ''1'') = [CHR '' '']"
    by (simp add: isspace_def)
  moreover have "value_tail (''INTEGER: '' @ replicate (Suc n) CHR ''1'') =
      Some (''INTEGER: '' @ replicate (Suc n) CHR ''1'')"
    unfolding value_tail_def Let_def by simp
  ultimately have "get_re (''= INTEGER: '' @ replicate (Suc n) CHR ''1'') =
      Some (''INTEGER: '' @ replicate (Suc n) CHR ''1'')"
    unfolding get_re_def literal_def skip_ws_def startswith_def by simp
  then show ?thesis
    by (simp add: get_re_def literal_def startswith_def)
qed

lemma long_response_raises:
  assumes "max_str_digits \<le> n"
  shows "snmp_get_try fo (ok (''IF-MIB::ifNumber.0 = INTEGER: '' @ replicate (Suc n) CHR ''1'')) =
    Inl ValueError"
proof -
  have "strip (''INTEGER: '' @ replicate (Suc n) CHR ''1'') =
      ''INTEGER: '' @ replicate (Suc n) CHR ''1''"
    by (rule strip_id) (simp_all add: isspace_def)
  then show ?thesis
    unfolding snmp_get_try_def ok_def
    using long_response_no_marker [of n] long_integer_raises [OF assms, of fo]
      long_response_strip [of n] long_response_value [of n]
    by (simp add: Let_def)
qed

lemma long_response_not_found:
  "\<not> not_found (ok (''IF-MIB::ifNumber.0 = INTEGER: '' @ replicate (Suc n) CHR ''1''))"
  unfolding not_found_def ok_def
  using long_response_no_marker [of n] long_response_strip [of n]
  by simp

lemma long_response_none:
  assumes "max_str_digits \<le> n"
  shows "fst (snmp_get fo scripted
          [ok (''IF-MIB::ifNumber.0 = INTEGER: '' @ replicate (Suc n) CHR ''1'')]
          target oid community port timeout retries) = Inr None"
  unfolding snmp_get_def scripted_def
  using long_response_raises [OF assms, of fo]
  by simp

text \<open>
  C2, at an input on which the code does not do what the claim says: a response whose
  \<^verbatim>\<open>INTEGER\<close> value has 4301 digits. \<^verbatim>\<open>parse_snmp_value\<close> raises \<^verbatim>\<open>ValueError\<close> there, from
  \<^verbatim>\<open>int(int_match.group(1))\<close>, which stands outside the \<^verbatim>\<open>try\<close> of the last rule; and
  \<^verbatim>\<open>snmp_get\<close>, given that response by a successful run, reports \<^verbatim>\<open>None\<close> although the
  response carries no "not found" marker: the error of the parser is caught by its
  \<^verbatim>\<open>except Exception\<close>.
\<close>

theorem parser_raises_on_long_integer:
  "parse_snmp_value fo (''INTEGER: '' @ replicate 4301 CHR ''1'') = Inl ValueError \<and>
   \<not> not_found (ok (''IF-MIB::ifNumber.0 = INTEGER: '' @ replicate 4301 CHR ''1'')) \<and>
   snmp_get_try fo (ok (''IF-MIB::ifNumber.0 = INTEGER: '' @ replicate 4301 CHR ''1'')) =
     Inl ValueError \<and>
   fst (snmp_get fo scripted
          [ok (''IF-MIB::ifNumber.0 = INTEGER: '' @ replicate 4301 CHR ''1'')]
          ''10.0.0.1'' ''1.3.6.1.2.1.2.1.0'' ''public'' 161 2 2) = Inr None"
proof -
  have n: "(4301 :: nat) = Suc 4300" by simp
  have m: "max_str_digits \<le> 4300" by (simp add: max_str_digits_def)
  from m have 1: "parse_snmp_value fo (''INTEGER: '' @ replicate (Suc 4300) CHR ''1'') =
      Inl ValueError"
    by (rule long_integer_raises)
  have 2: "\<not> not_found (ok (''IF-MIB::ifNumber.0 = INTEGER: '' @ replicate (Suc 4300) CHR ''1''))"
    by (rule long_response_not_found)
  from m have 3: "snmp_get_try fo
      (ok (''IF-MIB::ifNumber.0 = INTEGER: '' @ replicate (Suc 4300) CHR ''1'')) = Inl ValueError"
    by (rule long_response_raises)
  from m have 4: "fst (snmp_get fo scripted
          [ok (''IF-MIB::ifNumber.0 = INTEGER: '' @ replicate (Suc 4300) CHR ''1'')]
          ''10.0.0.1'' ''1.3.6.1.2.1.2.1.0'' ''public'' 161 2 2) = Inr None"
    by (rule long_response_none)
  from 1 2 3 4 show ?thesis unfolding n by (intro conjI)
qed

section \<open>Protocol Gateway: failures are values\<close>

lemma snmp_get_Inr: "\<exists>v. fst (snmp_get fo run w t oid c p to re) = Inr v"
  unfolding snmp_get_def by (auto split: prod.splits sum.splits)

lemma snmp_walk_Inr: "\<exists>d. fst (snmp_walk fo run w t oid c p to re) = Inr d"
  unfolding snmp_walk_def by (auto split: prod.splits sum.splits)

lemma snmp_get_try_failed:
  "transport_failed r \<or> not_found r \<Longrightarrow> snmp_get_try fo r = Inr None \<or> isl (snmp_get_try fo r)"
  unfolding transport_failed_def not_found_def snmp_get_try_def Let_def
  by (cases r) (auto split: sum.splits simp: isl_def)

lemma snmp_walk_try_failed:
  "transport_failed r \<Longrightarrow> snmp_walk_try fo r = Inr [] \<or> isl (snmp_walk_try fo r)"
  unfolding transport_failed_def snmp_walk_try_def
  by (cases r) (auto split: sum.splits simp: isl_def)

lemma walk_failure_empty:
  "transport_failed (fst (run w (snmp_cmd ''snmpwalk'' ip oid c p to re))) \<Longrightarrow>
     fst (snmp_walk fo run w ip oid c p to re) = Inr []"
proof -
  let ?r = "fst (run w (snmp_cmd ''snmpwalk'' ip oid c p to re))"
  assume "transport_failed ?r"
  then have "snmp_walk_try fo ?r = Inr [] \<or> isl (snmp_walk_try fo ?r)"
    by (rule snmp_walk_try_failed)
  then show ?thesis
    unfolding snmp_walk_def by (auto split: prod.splits sum.splits simp: isl_def)
qed

lemma snmp_walk_world:
  "snd (snmp_walk fo run w ip oid c p to re) = snd (run w (snmp_cmd ''snmpwalk'' ip oid c p to re))"
  unfolding snmp_walk_def by (auto split: prod.splits sum.splits)

text \<open>
  C8: \<^verbatim>\<open>snmp_get\<close> and \<^verbatim>\<open>snmp_walk\<close> never raise. \<^verbatim>\<open>snmp_get\<close> returns \<^verbatim>\<open>None\<close>
  when the transport fails (the subprocess cannot be run, it exits with a non-zero code, or
  its output cannot be decoded) and when the response is "not found"; \<^verbatim>\<open>snmp_walk\<close>
  returns the empty mapping when the transport fails.
\<close>

theorem gateway_never_throws:
  "(\<exists>v. fst (snmp_get fo run w t oid c p to re) = Inr v) \<and>
   (transport_failed (fst (run w (snmp_cmd ''snmpget'' t oid c p to re))) \<or>
    not_found (fst (run w (snmp_cmd ''snmpget'' t oid c p to re)))
      \<longrightarrow> fst (snmp_get fo run w t oid c p to re) = Inr None) \<and>
   (\<exists>d. fst (snmp_walk fo run w t oid c p to re) = Inr d) \<and>
   (transport_failed (fst (run w (snmp_cmd ''snmpwalk'' t oid c p to re)))
      \<longrightarrow> fst (snmp_walk fo run w t oid c p to re) = Inr [])"
proof (intro conjI impI)
  show "\<exists>v. fst (snmp_get fo run w t oid c p to re) = Inr v" by (rule snmp_get_Inr)
  show "\<exists>d. fst (snmp_walk fo run w t oid c p to re) = Inr d" by (rule snmp_walk_Inr)
next
  let ?r = "fst (run w (snmp_cmd ''snmpget'' t oid c p to re))"
  assume "transport_failed ?r \<or> not_found ?r"
  then have "snmp_get_try fo ?r = Inr None \<or> isl (snmp_get_try fo ?r)"
    by (rule snmp_get_try_failed)
  then show "fst (snmp_get fo run w t oid c p to re) = Inr None"
    unfolding snmp_get_def by (auto split: prod.splits sum.splits simp: isl_def)
next
  let ?r = "fst (run w (snmp_cmd ''snmpwalk'' t oid c p to re))"
  assume "transport_failed ?r"
  then have "snmp_walk_try fo ?r = Inr [] \<or> isl (snmp_walk_try fo ?r)"
    by (rule snmp_walk_try_failed)
  then show "fst (snmp_walk fo run w t oid c p to re) = Inr []"
    unfolding snmp_walk_def by (auto split: prod.splits sum.splits simp: isl_def)
qed

theorem gateway_never_throws_witness:
  "transport_failed (fst (scripted [Inl OSError] (snmp_cmd ''snmpget'' ''10.0.0.1'' ''1.3.6.1.2.1.1.5.0'' ''public'' 161 2 2))) \<and>
   fst (snmp_get nofloat scripted [Inl OSError] ''10.0.0.1'' ''1.3.6.1.2.1.1.5.0'' ''public'' 161 2 2) = Inr None \<and>
   transport_failed (fst (scripted [Inl OSError] (snmp_cmd ''snmpwalk'' ''10.0.0.1'' ''1.3.6.1.2.1.1.5.0'' ''public'' 161 2 2))) \<and>
   fst (snmp_walk nofloat scripted [Inl OSError] ''10.0.0.1'' ''1.3.6.1.2.1.1.5.0'' ''public'' 161 2 2) = Inr []"
  using gateway_never_throws [of nofloat scripted "[Inl OSError]" "''10.0.0.1''"
      "''1.3.6.1.2.1.1.5.0''" "''public''" 161 2 2]
  by (simp add: scripted_def transport_failed_def)

section \<open>Device identity: one binding per system attribute\<close>








section \<open>Interface Assembler: the soft failure\<close>

text \<open>
  When the walk of the type-code table fails, or returns no entry, or the filter loop ends
  with no index whose type code is in the allow-list, \<^verbatim>\<open>get_monitored_interfaces\<close>
  returns the empty mapping; the type-code table is the only table it has walked and the
  transport was used once.
\<close>

lemma soft_failure_when_filter_ends:
  assumes "transport_failed (fst (run w (snmp_cmd ''snmpwalk'' ip (oid_of ''ifType'') c p to re)))
     \<or> (\<exists>if_types. fst (snmp_walk fo run w ip (oid_of ''ifType'') c p to re) = Inr if_types \<and>
           (if_types = [] \<or> monitored fo types if_types = Inr []))"
  shows "get_monitored_interfaces fo types run w ip c p to re =
           (Inr [], [oid_of ''ifType''],
            snd (run w (snmp_cmd ''snmpwalk'' ip (oid_of ''ifType'') c p to re)))"
proof -
  obtain r w1 where sw: "snmp_walk fo run w ip (oid_of ''ifType'') c p to re = (r, w1)"
    by (cases "snmp_walk fo run w ip (oid_of ''ifType'') c p to re")
  have w1: "w1 = snd (run w (snmp_cmd ''snmpwalk'' ip (oid_of ''ifType'') c p to re))"
    using sw snmp_walk_world [of fo run w ip "oid_of ''ifType''" c p to re] by simp
  from assms obtain if_types where r: "r = Inr if_types"
    and e: "if_types = [] \<or> monitored fo types if_types = Inr []"
    using sw walk_failure_empty [of run w ip "oid_of ''ifType''" c p to re fo] by auto
  from e show ?thesis
    unfolding get_monitored_interfaces_def using sw r w1 by auto
qed

text \<open>
  The filter loop does not always end: \<^verbatim>\<open>int(if_type)\<close> is guarded by
  \<^verbatim>\<open>except (ValueError, TypeError)\<close> only. A walk line whose value is \<^verbatim>\<open>inf\<close> is parsed by
  the last rule of the parser, \<^verbatim>\<open>float(value_str)\<close>, into the float infinity.
\<close>

lemma parse_inf:
  assumes "float_of_str fo ''inf'' = Some x"
  shows "parse_snmp_value fo ''inf'' = Inr (PyFloat x)"
proof -
  have "py_int ''inf'' = Inl ValueError"
    by (simp add: py_int_def int_strip_def int_space_def unsigned_def isdigit_def Let_def)
  moreover have "re_search int_re ''inf'' = None" "re_search counter_re ''inf'' = None"
    "re_search timeticks_re ''inf'' = None" "re_search hex_re ''inf'' = None"
    "re_search ip_re ''inf'' = None"
    by (simp_all add: int_re_def counter_re_def timeticks_re_def hex_re_def ip_re_def
        literal_def startswith_def)
  ultimately show ?thesis
    using assms by (simp add: parse_snmp_value_def startswith_def)
qed

lemma walk_inf:
  assumes "float_of_str fo ''inf'' = Some x"
  shows "snmp_walk fo scripted [ok ''IF-MIB::ifType.1 = inf''] ip oid c p to re =
    (Inr [(''1'', PyFloat x)], [])"
proof -
  have "strip ''IF-MIB::ifType.1 = inf'' = ''IF-MIB::ifType.1 = inf''"
    by (rule strip_id) (simp_all add: isspace_def)
  moreover have "strip ''IF-MIB::ifType.1 '' = ''IF-MIB::ifType.1''" "strip '' inf'' = ''inf''"
    by (simp_all add: strip_def isspace_def)
  ultimately show ?thesis
    using parse_inf [OF assms]
    by (simp add: snmp_walk_def scripted_def ok_def snmp_walk_try_def
        parse_snmp_walk_response_def split1_def)
qed

text \<open>
  C7, at an input on which the code does not do what the claim says: a device whose
  type-code table has one entry, with the value \<^verbatim>\<open>inf\<close>. The walk succeeds and no index of
  it has a type code in the allow-list, whatever the allow-list is, but
  \<^verbatim>\<open>get_monitored_interfaces\<close> returns no mapping: \<^verbatim>\<open>int(if_type)\<close> raises
  \<^verbatim>\<open>OverflowError\<close> on the float infinity, which \<^verbatim>\<open>except (ValueError, TypeError)\<close> does not
  catch, and the error leaves the function. The two hypotheses say what \<^verbatim>\<open>float\<close> and
  \<^verbatim>\<open>int\<close> do in Python.
\<close>

theorem get_monitored_interfaces_raises_on_infinity:
  assumes "float_of_str fo ''inf'' = Some x" and "int_of_float fo x = Inl OverflowError"
  shows "snmp_walk fo scripted [ok ''IF-MIB::ifType.1 = inf''] ip (oid_of ''ifType'') c p to re =
           (Inr [(''1'', PyFloat x)], []) \<and>
         get_monitored_interfaces fo types scripted [ok ''IF-MIB::ifType.1 = inf''] ip c p to re =
           (Inl OverflowError, [oid_of ''ifType''], [])"
proof
  show w: "snmp_walk fo scripted [ok ''IF-MIB::ifType.1 = inf''] ip (oid_of ''ifType'') c p to re =
      (Inr [(''1'', PyFloat x)], [])"
    using assms(1) by (rule walk_inf)
  have "monitored fo types [(''1'', PyFloat x)] = Inl OverflowError"
    using assms(2) by (simp add: py_int_of_def)
  then show "get_monitored_interfaces fo types scripted [ok ''IF-MIB::ifType.1 = inf''] ip c p
      to re = (Inl OverflowError, [oid_of ''ifType''], [])"
    unfolding get_monitored_interfaces_def w by simp
qed

theorem get_monitored_interfaces_raises_on_infinity_witness:
  "float_of_str special_floats ''inf'' = Some Infinity \<and>
   int_of_float special_floats Infinity = Inl OverflowError \<and>
   get_monitored_interfaces special_floats iftypes scripted [ok ''IF-MIB::ifType.1 = inf'']
       ''10.0.0.1'' ''public'' 161 2 2 =
     (Inl OverflowError, [oid_of ''ifType''], [])"
  using get_monitored_interfaces_raises_on_infinity [of special_floats Infinity
      "''10.0.0.1''" "''public''" 161 2 2 iftypes]
  by (simp add: special_floats_def)

section \<open>Device list: the addresses read\<close>












section \<open>Persistence Engine: retry and rejection\<close>

text \<open>
  What \<^verbatim>\<open>execute_with_retry\<close> does: after the attempt numbered \<open>n\<close> (from 1) fails it sleeps
  \<open>0.5 * 2 ^ n\<close> seconds and tries again; the failure of attempt \<open>max_retries\<close> is raised.
\<close>

lemma backoffs_step: "i < j \<Longrightarrow> (0.5 * 2 ^ i) # backoffs (Suc i) j = backoffs i j"
  by (simp add: backoffs_def upt_rec)

lemma retry_then_success:
  "retry_count + k < max_retries \<Longrightarrow>
     execute_with_retry_loop flaky_statement max_retries retry_count slept
         (replicate k True @ False # rest) =
       (Inr True, slept @ backoffs (retry_count + 1) (retry_count + k + 1), rest)"
proof (induction k arbitrary: retry_count slept)
  case 0
  then show ?case
    by (subst execute_with_retry_loop.simps) (simp add: flaky_statement_def backoffs_def)
next
  case (Suc k)
  then have lt: "retry_count + 1 + k < max_retries" by simp
  have "execute_with_retry_loop flaky_statement max_retries retry_count slept
         (replicate (Suc k) True @ False # rest) =
        execute_with_retry_loop flaky_statement max_retries (retry_count + 1)
          (slept @ [0.5 * 2 ^ (retry_count + 1)]) (replicate k True @ False # rest)"
    using Suc.prems
    by (subst execute_with_retry_loop.simps) (simp add: flaky_statement_def Let_def)
  also have "\<dots> = (Inr True, (slept @ [0.5 * 2 ^ (retry_count + 1)]) @
      backoffs (retry_count + 1 + 1) (retry_count + 1 + k + 1), rest)"
    by (rule Suc.IH [OF lt])
  also have "(slept @ [0.5 * 2 ^ (retry_count + 1)]) @
      backoffs (retry_count + 1 + 1) (retry_count + 1 + k + 1) =
      slept @ backoffs (retry_count + 1) (retry_count + Suc k + 1)"
    using backoffs_step [of "retry_count + 1" "retry_count + Suc k + 1"] by simp
  finally show ?case .
qed

lemma retry_exhausted:
  "retry_count + k = max_retries \<Longrightarrow> 0 < k \<Longrightarrow>
     execute_with_retry_loop flaky_statement max_retries retry_count slept
         (replicate k True @ rest) =
       (Inl DbError, slept @ backoffs (retry_count + 1) max_retries, rest)"
proof (induction k arbitrary: retry_count slept)
  case 0
  then show ?case by simp
next
  case (Suc k)
  show ?case
  proof (cases "k = 0")
    case True
    with Suc.prems show ?thesis
      by (subst execute_with_retry_loop.simps)
         (simp add: flaky_statement_def Let_def backoffs_def)
  next
    case False
    then have k: "0 < k" by simp
    from Suc.prems have eq: "retry_count + 1 + k = max_retries" by simp
    have "execute_with_retry_loop flaky_statement max_retries retry_count slept
           (replicate (Suc k) True @ rest) =
          execute_with_retry_loop flaky_statement max_retries (retry_count + 1)
            (slept @ [0.5 * 2 ^ (retry_count + 1)]) (replicate k True @ rest)"
      using Suc.prems k
      by (subst execute_with_retry_loop.simps) (simp add: flaky_statement_def Let_def)
    also have "\<dots> = (Inl DbError, (slept @ [0.5 * 2 ^ (retry_count + 1)]) @
        backoffs (retry_count + 1 + 1) max_retries, rest)"
      by (rule Suc.IH [OF eq k])
    also have "(slept @ [0.5 * 2 ^ (retry_count + 1)]) @
        backoffs (retry_count + 1 + 1) max_retries = slept @ backoffs (retry_count + 1) max_retries"
      using backoffs_step [of "retry_count + 1" max_retries] eq k by simp
    finally show ?thesis .
  qed
qed

lemma execute_with_retry_backoff:
  "(k < max_retries \<longrightarrow>
      execute_with_retry flaky_statement max_retries (replicate k True @ False # rest) =
        (Inr True, backoffs 1 (k + 1), rest)) \<and>
   (0 < max_retries \<longrightarrow>
      execute_with_retry flaky_statement max_retries (replicate max_retries True @ rest) =
        (Inl DbError, backoffs 1 max_retries, rest))"
  using retry_then_success [of 0 k max_retries "[]" rest]
    retry_exhausted [of 0 max_retries max_retries "[]" rest]
  by (simp add: execute_with_retry_def)

lemma get_connection_raises:
  "get_connection_loop retry_count pool = (Raised e, pool') \<Longrightarrow> retry_count < 3 \<Longrightarrow> e = DbError"
proof (induction retry_count pool rule: get_connection_loop.induct)
  case (1 retry_count pool)
  show ?case
  proof (cases pool)
    case Nil
    with "1.prems" show ?thesis by (simp add: get_connection_loop.simps)
  next
    case (Cons f fs)
    show ?thesis
    proof (cases "f \<and> retry_count + 1 < 3")
      case True
      with Cons "1.prems" have "get_connection_loop (retry_count + 1) fs = (Raised e, pool')"
        by (subst (asm) get_connection_loop.simps) simp
      with "1.IH" [OF "1.prems"(2) Cons] True show ?thesis by simp
    next
      case False
      with Cons "1.prems" show ?thesis
        by (subst (asm) get_connection_loop.simps) (auto split: if_splits)
    qed
  qed
qed

text \<open>
  C3 is not what \<^verbatim>\<open>save_interface_stats_batch\<close> does: when the first insert of a batch
  fails and the second would succeed, the function raises \<^verbatim>\<open>AttributeError\<close> from
  \<^verbatim>\<open>time.sleep\<close>; the second attempt is never made and no row is written. With the same
  faults, \<^verbatim>\<open>execute_with_retry\<close> sleeps one second and succeeds.
\<close>

theorem batch_insert_no_retry:
  "save_interface_stats_batch nofloat [] False (Inr [(1, 10)]) ''2026-01-01 00:00:00''
       one_sample
       \<lparr>interface_stats = [], faults = [True, False]\<rparr> =
     (Inl AttributeError, \<lparr>interface_stats = [], faults = [False]\<rparr>) \<and>
   execute_with_retry flaky_statement 3 [True, False] = (Inr True, [1], [])"
proof
  have r: "stats_values nofloat [(1, 10)] ''2026-01-01 00:00:00'' one_sample [] =
      Inr [(10, ''2026-01-01 00:00:00'', 0, 0, 100, 0, 0, 0)]"
    by (simp add: one_sample_def lookup_interface_def index_key_def dict_get_def stats_row_def
        int_or_zero_def truthy_def py_int_of_def)
  have g: "get_connection_loop 0 [] = (Yielded 0, [])"
    by (simp add: get_connection_loop.simps)
  show "save_interface_stats_batch nofloat [] False (Inr [(1, 10)]) ''2026-01-01 00:00:00''
       one_sample
       \<lparr>interface_stats = [], faults = [True, False]\<rparr> =
     (Inl AttributeError, \<lparr>interface_stats = [], faults = [False]\<rparr>)"
    by (simp add: save_interface_stats_batch_def g batch_body_def r insert_loop.simps
        executemany_commit_def time_sleep_def db_connection_throw_def except_Error_def)
  show "execute_with_retry flaky_statement 3 [True, False] = (Inr True, [1], [])"
    using execute_with_retry_backoff [of 1 3 "[]"]
    by (simp add: backoffs_def)
qed

text \<open>
  When the cursor is created and the interface map of the device is empty,
  \<^verbatim>\<open>save_interface_stats_batch\<close> returns \<^verbatim>\<open>False\<close>, leaves the store as it was and raises
  nothing, whatever the batch and whatever the connection pool does.
\<close>

lemma empty_map_rejected_when_cursor_created:
  "save_interface_stats_batch fo pool False (Inr []) current_time interfaces_data st =
     (Inr False, st)"
proof (cases "get_connection_loop 0 pool")
  case (Pair a pool')
  show ?thesis
  proof (cases a)
    case (Yielded n)
    with Pair show ?thesis by (simp add: save_interface_stats_batch_def batch_body_def)
  next
    case (Raised e)
    with Pair have "e = DbError" using get_connection_raises [of 0 pool e pool'] by simp
    with Pair Raised show ?thesis by (simp add: save_interface_stats_batch_def except_Error_def)
  qed
qed

text \<open>
  C6, at an input on which the code does not do what the claim says: the interface map of
  the device is empty, the pool gives its connections, and \<^verbatim>\<open>connection.cursor()\<close>, the first
  statement of the \<^verbatim>\<open>with\<close> body, raises the store's error. The error is thrown into the
  generator of \<^verbatim>\<open>db_connection\<close>, whose retry loop catches it, takes a second connection and
  yields again; \<^verbatim>\<open>contextlib\<close> answers with \<^verbatim>\<open>RuntimeError\<close>, which is not the store's error, so
  \<^verbatim>\<open>except Error: return False\<close> does not catch it. The function raises to its caller,
  whatever the batch; no row is written.
\<close>

theorem empty_interface_map_cursor_error:
  "save_interface_stats_batch fo [] True (Inr []) current_time interfaces_data st =
     (Inl RuntimeError, st)"
proof -
  have "get_connection_loop 0 [] = (Yielded 0, [])"
    by (simp add: get_connection_loop.simps)
  moreover have "get_connection_loop (Suc 0) [] = (Yielded (Suc 0), [])"
    by (simp add: get_connection_loop.simps)
  ultimately show ?thesis
    by (simp add: save_interface_stats_batch_def batch_body_def db_connection_throw_def
        except_Error_def)
qed

section \<open>Partition Maintainer: two runs\<close>




























section \<open>Utilization Calculator: counter resets\<close>








text \<open>
  C5, as stated, fails: the substitution is made, but the raw counter of a sample can be
  negative (the columns are signed and the writer stores whatever integer the device
  printed). From the sample \<open>s0\<close> to the sample \<open>s2\<close>, sixty seconds later, whose wide input
  counter is 0 and whose standard input counter is - 6, the input delta is negative, the
  raw counter - 6 is taken for it, and the record returned has a negative input rate.
\<close>

theorem counter_reset_negative_counterexample:
  "ifInOctets s2 - ifInOctets s0 < 0 \<and>
   in_bytes s0 s2 = - 6 \<and>
   map in_bps (calculate_interface_utilization (Some gig) [s0, s2]) = [- 4 / 5] \<and>
   in_bps (hd (calculate_interface_utilization (Some gig) [s0, s2])) < 0"
  by (simp add: s0_def s2_def gig_def calculate_interface_utilization_def pair_utilization_def
      in_bytes_def out_bytes_def Let_def)



end
